theory Spec2Isabelle
  imports Main
begin

unbundle bit_operations_syntax

section \<open>The environment: log, discovery library, event loop\<close>

text \<open>
  \<^verbatim>\<open>twistbonjour.py\<close> is glue between three collaborators that are not part of the
  repository: Twisted's log (\<^verbatim>\<open>log.msg\<close>, \<^verbatim>\<open>log.err\<close>), the pybonjour library
  (\<^verbatim>\<open>DNSServiceRegister\<close>, \<^verbatim>\<open>DNSServiceBrowse\<close>, \<^verbatim>\<open>DNSServiceResolve\<close>,
  \<^verbatim>\<open>DNSServiceProcessResult\<close>, and the methods \<^verbatim>\<open>fileno\<close> and \<^verbatim>\<open>close\<close> of a
  service reference) and the reactor (\<^verbatim>\<open>addReader\<close>, \<^verbatim>\<open>removeReader\<close>).
  Every effect of the module is a call into one of them or an assignment to an attribute.
  The world records the calls in the order they are made, so that what a method did can be
  read off the world it returns.
\<close>

datatype exn =
    AttributeError string string   \<comment> \<open>class of the object, name of the missing attribute\<close>
  | BonjourError int               \<comment> \<open>pybonjour's exception, with the native error code\<close>
  | TypeError string               \<comment> \<open>raised by Twisted when a root cannot be adapted\<close>

datatype log_entry = Msg string | Err string

datatype callback = UserCallback string | BrowseCallback

type_synonym txt_record = "(string \<times> string) list"

text \<open>The calls into pybonjour, with the arguments in the order of the call.\<close>

datatype lib_call =
    DNSServiceRegister int int string string string string int "txt_record option" callback
  | DNSServiceBrowse int int string string callback
  | DNSServiceResolve int int string string string callback
  | DNSServiceProcessResult "nat option"
  | SdRefFileno nat
  | SdRefClose nat

text \<open>
  What a library call does next is decided outside the program (the network, the daemon):
  it returns a value or raises \<^verbatim>\<open>BonjourError\<close>. The world carries the outcomes of the
  coming calls; a call takes the first one, and returns 0 when none is left.
\<close>

datatype outcome = Returns int | Raises exn

text \<open>An instance of \<^verbatim>\<open>BonjourDescriptor\<close>: its only attribute is \<^verbatim>\<open>sdRef\<close>.\<close>

record BonjourDescriptor =
  d_sdRef :: "nat option"

text \<open>An instance of \<^verbatim>\<open>BonjourResolver\<close>; \<^verbatim>\<open>bonjourDesc\<close> is \<open>None\<close> while the
  attribute does not exist (it is first assigned in \<^verbatim>\<open>startResolving\<close>).\<close>

record BonjourResolver =
  r_sdRef :: "nat option"
  r_name :: string
  r_regtype :: string
  r_domain :: string
  r_callback :: callback
  r_flags :: int
  r_interfaceIndex :: int
  r_bonjourDesc :: "nat option"

text \<open>
  Descriptors and resolvers are objects that several parties refer to (the component that
  made them, the reactor), so they live in a store and are named by their index in it.
  Service references are named by a number; \<open>next_ref\<close> is the next unused one.
  The \<open>readers\<close> are the descriptors registered with the reactor; \<open>reactor_polls\<close>
  tells whether the reactor is one built on poll or epoll, which asks a reader for its
  file number when it removes it, or the select reactor, which does not.
\<close>

record world =
  log :: "log_entry list"
  calls :: "lib_call list"
  script :: "outcome list"
  next_ref :: nat
  descs :: "BonjourDescriptor list"
  resolver_objs :: "BonjourResolver list"
  readers :: "nat list"
  reactor_polls :: bool

definition kDNSServiceErr_NoError :: int where
  "kDNSServiceErr_NoError = 0"

definition kDNSServiceFlagsAdd :: int where
  "kDNSServiceFlagsAdd = 2"

definition log_msg :: "string \<Rightarrow> world \<Rightarrow> world" where
  "log_msg s w = w\<lparr>log := log w @ [Msg s]\<rparr>"

definition log_err :: "string \<Rightarrow> world \<Rightarrow> world" where
  "log_err s w = w\<lparr>log := log w @ [Err s]\<rparr>"

definition next_outcome :: "world \<Rightarrow> outcome \<times> world" where
  "next_outcome w =
     (case script w of
        [] \<Rightarrow> (Returns 0, w)
      | x # xs \<Rightarrow> (x, w\<lparr>script := xs\<rparr>))"

text \<open>A call that creates a session: the call is recorded; it raises, or returns a new
  service reference.\<close>

definition new_session :: "lib_call \<Rightarrow> world \<Rightarrow> (exn + nat) \<times> world" where
  "new_session c w =
     (case next_outcome (w\<lparr>calls := calls w @ [c]\<rparr>) of
        (Raises e, w1) \<Rightarrow> (Inl e, w1)
      | (Returns _, w1) \<Rightarrow> (Inr (next_ref w1), w1\<lparr>next_ref := Suc (next_ref w1)\<rparr>))"

text \<open>
  \<^verbatim>\<open>pybonjour.DNSServiceProcessResult(sdRef)\<close>: the call is recorded with the argument it
  is given, a service reference or \<^verbatim>\<open>None\<close>, and what it does with either is the
  library's own decision, taken from the outcomes like that of every other call.
\<close>

definition lib_process_result :: "nat option \<Rightarrow> world \<Rightarrow> outcome \<times> world" where
  "lib_process_result sdRef w =
     next_outcome (w\<lparr>calls := calls w @ [DNSServiceProcessResult sdRef]\<rparr>)"

text \<open>\<^verbatim>\<open>sdRef.fileno()\<close> and \<^verbatim>\<open>sdRef.close()\<close> of a service reference.\<close>

definition sdRef_fileno :: "nat \<Rightarrow> world \<Rightarrow> outcome \<times> world" where
  "sdRef_fileno s w = next_outcome (w\<lparr>calls := calls w @ [SdRefFileno s]\<rparr>)"

definition sdRef_close :: "nat \<Rightarrow> world \<Rightarrow> world" where
  "sdRef_close s w = w\<lparr>calls := calls w @ [SdRefClose s]\<rparr>"

section \<open>BonjourDescriptor\<close>

text \<open>\<^verbatim>\<open>BonjourDescriptor(sdRef)\<close>: a new object in the store; its index is returned.\<close>

definition BonjourDescriptor_init :: "nat option \<Rightarrow> world \<Rightarrow> nat \<times> world" where
  "BonjourDescriptor_init sdRef w =
     (length (descs w), w\<lparr>descs := descs w @ [\<lparr>d_sdRef = sdRef\<rparr>]\<rparr>)"

text \<open>\<^verbatim>\<open>return self.sdRef.fileno()\<close>: on \<^verbatim>\<open>None\<close> the attribute lookup raises.\<close>

definition fileno :: "nat \<Rightarrow> world \<Rightarrow> (exn + int) \<times> world" where
  "fileno d w =
     (case d_sdRef (descs w ! d) of
        None \<Rightarrow> (Inl (AttributeError ''NoneType'' ''fileno''), w)
      | Some s \<Rightarrow>
          (case sdRef_fileno s w of
             (Raises e, w1) \<Rightarrow> (Inl e, w1)
           | (Returns fd, w1) \<Rightarrow> (Inr fd, w1)))"

text \<open>\<^verbatim>\<open>ret = pybonjour.DNSServiceProcessResult(self.sdRef)\<close>: nothing is caught, and
  \<^verbatim>\<open>ret\<close> is not looked at.\<close>

definition doRead :: "nat \<Rightarrow> world \<Rightarrow> (exn + unit) \<times> world" where
  "doRead d w =
     (case lib_process_result (d_sdRef (descs w ! d)) w of
        (Raises e, w1) \<Rightarrow> (Inl e, w1)
      | (Returns ret, w1) \<Rightarrow> (Inr (), w1))"


section \<open>The reactor\<close>

text \<open>
  The reactor keeps its readers in a dictionary keyed by the reader: adding a reader that
  is there changes nothing. (A reactor that polls asks a new reader for its file number as
  well; that call, on a session that was just opened, is not part of \<open>addReader\<close> here.)
\<close>

definition addReader :: "nat \<Rightarrow> world \<Rightarrow> world" where
  "addReader d w = (if d \<in> set (readers w) then w else w\<lparr>readers := readers w @ [d]\<rparr>)"

text \<open>
  \<^verbatim>\<open>reactor.removeReader(reader)\<close>. The select reactor deletes the reader from its
  dictionary if it is there. A reactor that polls first calls \<^verbatim>\<open>reader.fileno()\<close>, the
  method of the descriptor above; an exception of that call leaves \<^verbatim>\<open>removeReader\<close>,
  and the reader stays registered.
\<close>

definition removeReader :: "nat \<Rightarrow> world \<Rightarrow> (exn + unit) \<times> world" where
  "removeReader d w =
     (if reactor_polls w
      then (case fileno d w of
              (Inl e, w1) \<Rightarrow> (Inl e, w1)
            | (Inr fd, w1) \<Rightarrow> (Inr (), w1\<lparr>readers := removeAll d (readers w1)\<rparr>))
      else (Inr (), w\<lparr>readers := removeAll d (readers w)\<rparr>))"

section \<open>BonjourAdvertiser\<close>

text \<open>
  The attributes of an advertiser. The \<^verbatim>\<open>reactor\<close> attribute refers to the event loop,
  whose readers are in the world. \<^verbatim>\<open>bonjourDesc\<close> is not assigned by
  \<^verbatim>\<open>__init__\<close>: \<open>None\<close> stands for the attribute that does not exist yet, \<open>Some d\<close>
  for a reference to the descriptor \<open>d\<close> of the store.
\<close>

record BonjourAdvertiser =
  a_name :: string
  a_regtype :: string
  a_domain :: string
  a_port :: int
  a_callback :: callback
  a_flags :: int
  a_interfaceIndex :: int
  a_host :: string
  a_txtLen :: int
  a_txtRecord :: "txt_record option"
  a_context :: "string option"
  a_sdRef :: "nat option"
  a_bonjourDesc :: "nat option"

definition BonjourAdvertiser_init ::
  "string \<Rightarrow> string \<Rightarrow> int \<Rightarrow> callback \<Rightarrow> int \<Rightarrow> int \<Rightarrow> string \<Rightarrow> string \<Rightarrow> int \<Rightarrow>
   txt_record option \<Rightarrow> string option \<Rightarrow> BonjourAdvertiser" where
  "BonjourAdvertiser_init name regtype port cb flags interfaceIndex domain host txtLen
       txtRecord context =
     \<lparr>a_name = name, a_regtype = regtype, a_domain = domain, a_port = port,
      a_callback = cb, a_flags = flags, a_interfaceIndex = interfaceIndex, a_host = host,
      a_txtLen = txtLen, a_txtRecord = txtRecord, a_context = context,
      a_sdRef = None, a_bonjourDesc = None\<rparr>"

text \<open>The defaults of the keyword arguments of \<^verbatim>\<open>BonjourAdvertiser.__init__\<close>.\<close>

definition BonjourAdvertiser_default ::
  "string \<Rightarrow> string \<Rightarrow> int \<Rightarrow> callback \<Rightarrow> BonjourAdvertiser" where
  "BonjourAdvertiser_default name regtype port cb =
     BonjourAdvertiser_init name regtype port cb 0 0 ''local'' [] 0 None None"

text \<open>
  A method returns its result (or the exception it raises), the object as the method left
  it, and the world. An exception keeps the assignments made before it.
\<close>

definition startAdvertising ::
  "BonjourAdvertiser \<Rightarrow> world \<Rightarrow> (exn + unit) \<times> BonjourAdvertiser \<times> world" where
  "startAdvertising a w =
     (case new_session
             (DNSServiceRegister (a_flags a) (a_interfaceIndex a) (a_name a) (a_regtype a)
                (a_domain a) (a_host a) (a_port a) (a_txtRecord a) (a_callback a)) w of
        (Inl e, w1) \<Rightarrow> (Inl e, a, w1)
      | (Inr s, w1) \<Rightarrow>
          (let a1 = a\<lparr>a_sdRef := Some s\<rparr>;
               (d, w2) = BonjourDescriptor_init (a_sdRef a1) w1;
               a2 = a1\<lparr>a_bonjourDesc := Some d\<rparr>;
               w3 = addReader d w2
           in (Inr (), a2, w3)))"

definition stopAdvertising ::
  "BonjourAdvertiser \<Rightarrow> world \<Rightarrow> (exn + unit) \<times> BonjourAdvertiser \<times> world" where
  "stopAdvertising a w =
     (case a_bonjourDesc a of
        None \<Rightarrow> (Inl (AttributeError ''BonjourAdvertiser'' ''bonjourDesc''), a, w)
      | Some d \<Rightarrow>
          (case removeReader d w of
             (Inl e, w1) \<Rightarrow> (Inl e, a, w1)
           | (Inr _, w1) \<Rightarrow>
               (case a_sdRef a of
                  None \<Rightarrow> (Inr (), a, w1)
                | Some s \<Rightarrow> (Inr (), a\<lparr>a_sdRef := None\<rparr>, sdRef_close s w1))))"

section \<open>BonjourResolver\<close>

text \<open>\<^verbatim>\<open>BonjourResolver(name, regtype, callback, reactor, flags, interfaceIndex, domain)\<close>:
  a new object in the store. The \<^verbatim>\<open>context\<close> argument is not kept.\<close>

definition BonjourResolver_init ::
  "string \<Rightarrow> string \<Rightarrow> callback \<Rightarrow> int \<Rightarrow> int \<Rightarrow> string \<Rightarrow> world \<Rightarrow> nat \<times> world" where
  "BonjourResolver_init name regtype cb flags interfaceIndex domain w =
     (length (resolver_objs w),
      w\<lparr>resolver_objs := resolver_objs w @
          [\<lparr>r_sdRef = None, r_name = name, r_regtype = regtype, r_domain = domain,
            r_callback = cb, r_flags = flags, r_interfaceIndex = interfaceIndex,
            r_bonjourDesc = None\<rparr>]\<rparr>)"

definition set_resolver :: "nat \<Rightarrow> (BonjourResolver \<Rightarrow> BonjourResolver) \<Rightarrow> world \<Rightarrow> world" where
  "set_resolver r f w = w\<lparr>resolver_objs := (resolver_objs w)[r := f (resolver_objs w ! r)]\<rparr>"

definition startResolving :: "nat \<Rightarrow> world \<Rightarrow> (exn + unit) \<times> world" where
  "startResolving r w =
     (let self = resolver_objs w ! r
      in case new_session
                (DNSServiceResolve (r_flags self) (r_interfaceIndex self) (r_name self)
                   (r_regtype self) (r_domain self) (r_callback self)) w of
           (Inl e, w1) \<Rightarrow> (Inl e, w1)
         | (Inr s, w1) \<Rightarrow>
             (let w2 = set_resolver r (\<lambda>x. x\<lparr>r_sdRef := Some s\<rparr>) w1;
                  (d, w3) = BonjourDescriptor_init (Some s) w2;
                  w4 = set_resolver r (\<lambda>x. x\<lparr>r_bonjourDesc := Some d\<rparr>) w3;
                  w5 = addReader d w4
              in (Inr (), w5)))"

definition stopResolving :: "nat \<Rightarrow> world \<Rightarrow> (exn + unit) \<times> world" where
  "stopResolving r w =
     (let self = resolver_objs w ! r
      in case r_bonjourDesc self of
           None \<Rightarrow> (Inl (AttributeError ''BonjourResolver'' ''bonjourDesc''), w)
         | Some d \<Rightarrow>
             (case removeReader d w of
                (Inl e, w1) \<Rightarrow> (Inl e, w1)
              | (Inr _, w1) \<Rightarrow>
                  (case r_sdRef self of
                     None \<Rightarrow> (Inr (), w1)
                   | Some s \<Rightarrow>
                       (Inr (),
                        set_resolver r (\<lambda>x. x\<lparr>r_sdRef := None\<rparr>) (sdRef_close s w1)))))"

section \<open>BonjourBrowser\<close>

text \<open>\<^verbatim>\<open>resolvers\<close> is the list that \<^verbatim>\<open>__init__\<close> creates empty; it would hold
  references to resolvers of the store.\<close>

record BonjourBrowser =
  b_sdRef :: "nat option"
  b_regtype :: string
  b_domain :: string
  b_resolveCallback :: callback
  b_flags :: int
  b_interfaceIndex :: int
  b_context :: "string option"
  b_resolvers :: "nat list"
  b_bonjourDesc :: "nat option"

definition BonjourBrowser_init ::
  "string \<Rightarrow> callback \<Rightarrow> int \<Rightarrow> int \<Rightarrow> string \<Rightarrow> string option \<Rightarrow> BonjourBrowser" where
  "BonjourBrowser_init regtype cb flags interfaceIndex domain context =
     \<lparr>b_sdRef = None, b_regtype = regtype, b_domain = domain, b_resolveCallback = cb,
      b_flags = flags, b_interfaceIndex = interfaceIndex, b_context = context,
      b_resolvers = [], b_bonjourDesc = None\<rparr>"

definition startBrowsing ::
  "BonjourBrowser \<Rightarrow> world \<Rightarrow> (exn + unit) \<times> BonjourBrowser \<times> world" where
  "startBrowsing b w =
     (case new_session
             (DNSServiceBrowse (b_flags b) (b_interfaceIndex b) (b_regtype b) (b_domain b)
                BrowseCallback) w of
        (Inl e, w1) \<Rightarrow> (Inl e, b, w1)
      | (Inr s, w1) \<Rightarrow>
          (let b1 = b\<lparr>b_sdRef := Some s\<rparr>;
               (d, w2) = BonjourDescriptor_init (b_sdRef b1) w1;
               b2 = b1\<lparr>b_bonjourDesc := Some d\<rparr>;
               w3 = addReader d w2
           in (Inr (), b2, w3)))"

definition stopBrowsing ::
  "BonjourBrowser \<Rightarrow> world \<Rightarrow> (exn + unit) \<times> BonjourBrowser \<times> world" where
  "stopBrowsing b w =
     (case b_bonjourDesc b of
        None \<Rightarrow> (Inl (AttributeError ''BonjourBrowser'' ''bonjourDesc''), b, w)
      | Some d \<Rightarrow>
          (case removeReader d w of
             (Inl e, w1) \<Rightarrow> (Inl e, b, w1)
           | (Inr _, w1) \<Rightarrow>
               (case b_sdRef b of
                  None \<Rightarrow> (Inr (), b, w1)
                | Some s \<Rightarrow> (Inr (), b\<lparr>b_sdRef := None\<rparr>, sdRef_close s w1))))"

text \<open>Python's \<^verbatim>\<open>"%s" % n\<close> for an integer: its decimal digits, with a minus sign.\<close>

fun str_nat :: "nat \<Rightarrow> string" where
  "str_nat n =
     (if n < 10 then [''0123456789'' ! n]
      else str_nat (n div 10) @ [''0123456789'' ! (n mod 10)])"

declare str_nat.simps [simp del]

definition str_int :: "int \<Rightarrow> string" where
  "str_int i = (if i < 0 then ''-'' @ str_nat (nat (- i)) else str_nat (nat i))"

definition serviceRemovedCallback ::
  "BonjourBrowser \<Rightarrow> string \<Rightarrow> string \<Rightarrow> string \<Rightarrow> world \<Rightarrow>
   (exn + unit) \<times> BonjourBrowser \<times> world" where
  "serviceRemovedCallback b serviceName regtype relpyDomain w =
     (Inr (), b, log_msg ''Service Removed'' w)"

definition browseCallback ::
  "BonjourBrowser \<Rightarrow> nat \<Rightarrow> int \<Rightarrow> int \<Rightarrow> int \<Rightarrow> string \<Rightarrow> string \<Rightarrow> string \<Rightarrow> world \<Rightarrow>
   (exn + unit) \<times> BonjourBrowser \<times> world" where
  "browseCallback b sdRef flags interfaceIndex errorCode serviceName regtype replyDomain w =
     (if errorCode \<noteq> kDNSServiceErr_NoError
      then (Inr (), b, log_err (''Bonjour error: '' @ str_int errorCode) w)
      else if flags AND kDNSServiceFlagsAdd = 0
      then serviceRemovedCallback b serviceName regtype replyDomain w
      else
        (let (res, w1) = BonjourResolver_init serviceName regtype (b_resolveCallback b)
                           flags interfaceIndex replyDomain w;
             (x, w2) = startResolving res w1
         in (x, b, w2)))"

section \<open>PBServerFactoryBonjour\<close>

text \<open>
  Objects of the factory classes are instance dictionaries (attribute name to value) in a
  heap of their own; a reference is an index into the heap.
\<close>

datatype pyval = VNone | VBool bool | VInt int | VStr string | VRef nat

type_synonym obj = "string \<rightharpoonup> pyval"

text \<open>
  \<^verbatim>\<open>pb.PBServerFactory(root, unsafeTracebacks)\<close> is a constructor call of Twisted: it
  makes a new object and runs the base initializer on it, which stores the adapted root
  and the flag. The adaptation \<^verbatim>\<open>IPBRoot(root)\<close> is a parameter; it may raise.
\<close>

definition PBServerFactory_new ::
  "(pyval \<Rightarrow> exn + pyval) \<Rightarrow> pyval \<Rightarrow> bool \<Rightarrow> obj list \<Rightarrow> (exn + nat) \<times> obj list" where
  "PBServerFactory_new IPBRoot root unsafeTracebacks h =
     (case IPBRoot root of
        Inl e \<Rightarrow> (Inl e, h @ [Map.empty])
      | Inr r \<Rightarrow>
          (Inr (length h),
           h @ [[''root'' \<mapsto> r, ''unsafeTracebacks'' \<mapsto> VBool unsafeTracebacks]]))"

text \<open>\<^verbatim>\<open>PBServerFactoryBonjour.__init__\<close> on the instance \<open>self\<close>: the object that the
  constructor call returns is dropped.\<close>

definition PBServerFactoryBonjour_init ::
  "(pyval \<Rightarrow> exn + pyval) \<Rightarrow> nat \<Rightarrow> pyval \<Rightarrow> pyval \<Rightarrow> pyval \<Rightarrow> pyval \<Rightarrow> bool \<Rightarrow> obj list \<Rightarrow>
   (exn + unit) \<times> obj list" where
  "PBServerFactoryBonjour_init IPBRoot self root serviceName serviceType servicePort
       unsafeTracebacks h =
     (case PBServerFactory_new IPBRoot root unsafeTracebacks h of
        (Inl e, h1) \<Rightarrow> (Inl e, h1)
      | (Inr _, h1) \<Rightarrow>
          (let h2 = h1[self := (h1 ! self)(''serviceName'' \<mapsto> serviceName)];
               h3 = h2[self := (h2 ! self)(''serviceType'' \<mapsto> serviceType)];
               h4 = h3[self := (h3 ! self)(''servicePort'' \<mapsto> servicePort)]
           in (Inr (), h4)))"

text \<open>\<^verbatim>\<open>PBServerFactoryBonjour(root, serviceName, serviceType, servicePort)\<close>: a new
  instance without attributes, then \<^verbatim>\<open>__init__\<close> on it.\<close>

definition PBServerFactoryBonjour_new ::
  "(pyval \<Rightarrow> exn + pyval) \<Rightarrow> pyval \<Rightarrow> pyval \<Rightarrow> pyval \<Rightarrow> pyval \<Rightarrow> bool \<Rightarrow> obj list \<Rightarrow>
   (exn + nat) \<times> obj list" where
  "PBServerFactoryBonjour_new IPBRoot root serviceName serviceType servicePort
       unsafeTracebacks h =
     (let self = length h
      in case PBServerFactoryBonjour_init IPBRoot self root serviceName serviceType
                servicePort unsafeTracebacks (h @ [Map.empty]) of
           (Inl e, h1) \<Rightarrow> (Inl e, h1)
         | (Inr _, h1) \<Rightarrow> (Inr self, h1))"

section \<open>Sequences of calls\<close>




text \<open>The methods of a browser, in any order; a browse callback carries the arguments
  of the native callback.\<close>

datatype browser_op =
    OpStartBrowsing
  | OpStopBrowsing
  | OpBrowseCallback nat int int int string string string

fun browser_step :: "browser_op \<Rightarrow> BonjourBrowser \<times> world \<Rightarrow> BonjourBrowser \<times> world" where
  "browser_step OpStartBrowsing (b, w) = snd (startBrowsing b w)"
| "browser_step OpStopBrowsing (b, w) = snd (stopBrowsing b w)"
| "browser_step (OpBrowseCallback sdRef flags interfaceIndex errorCode serviceName regtype
       replyDomain) (b, w) =
     snd (browseCallback b sdRef flags interfaceIndex errorCode serviceName regtype
            replyDomain w)"

fun browser_run :: "browser_op list \<Rightarrow> BonjourBrowser \<times> world \<Rightarrow> BonjourBrowser \<times> world" where
  "browser_run [] bw = bw"
| "browser_run (x # xs) bw = browser_run xs (browser_step x bw)"

text \<open>What a method added to the log and to the library calls.\<close>

definition new_log :: "world \<Rightarrow> world \<Rightarrow> log_entry list" where
  "new_log w w' = drop (length (log w)) (log w')"

definition new_calls :: "world \<Rightarrow> world \<Rightarrow> lib_call list" where
  "new_calls w w' = drop (length (calls w)) (calls w')"


text \<open>The removal path is \<^verbatim>\<open>serviceRemovedCallback\<close>, and the line it logs is how a run
  shows that it was taken.\<close>

definition removal_fired :: "world \<Rightarrow> world \<Rightarrow> bool" where
  "removal_fired w w' = (Msg ''Service Removed'' \<in> set (new_log w w'))"

section \<open>Example objects\<close>

text \<open>A world in which a browser has been started: session 0, wrapped by descriptor 0,
  which the reactor reads. The argument is what the library will do next.\<close>

definition example_world :: "outcome list \<Rightarrow> world" where
  "example_world os =
     \<lparr>log = [], calls = [DNSServiceBrowse 0 0 ''_echo._tcp'' ''local'' BrowseCallback],
      script = os, next_ref = 1, descs = [\<lparr>d_sdRef = Some 0\<rparr>], resolver_objs = [],
      readers = [0], reactor_polls = False\<rparr>"

definition example_browser :: BonjourBrowser where
  "example_browser =
     (BonjourBrowser_init ''_echo._tcp'' (UserCallback ''resolveCallback'') 0 0 ''local'' None)
       \<lparr>b_sdRef := Some 0, b_bonjourDesc := Some 0\<rparr>"

text \<open>A world in which nothing has happened, and the advertiser of the echo server
  before and after its first \<^verbatim>\<open>startAdvertising\<close>.\<close>

definition initial_world :: world where
  "initial_world =
     \<lparr>log = [], calls = [], script = [], next_ref = 0, descs = [], resolver_objs = [],
      readers = [], reactor_polls = False\<rparr>"

definition example_advertiser :: BonjourAdvertiser where
  "example_advertiser =
     BonjourAdvertiser_default ''myecho'' ''_echo._tcp'' 8000
       (UserCallback ''registrationCallback'')"

definition example_register :: lib_call where
  "example_register =
     DNSServiceRegister 0 0 ''myecho'' ''_echo._tcp'' ''local'' [] 8000 None
       (UserCallback ''registrationCallback'')"

definition started_advertiser :: BonjourAdvertiser where
  "started_advertiser = example_advertiser\<lparr>a_sdRef := Some 0, a_bonjourDesc := Some 0\<rparr>"

definition started_world :: world where
  "started_world =
     initial_world\<lparr>calls := [example_register], next_ref := 1,
       descs := [\<lparr>d_sdRef = Some 0\<rparr>], readers := [0]\<rparr>"

text \<open>The registration call that \<^verbatim>\<open>startAdvertising\<close> makes for an advertiser.\<close>

definition register_call :: "BonjourAdvertiser \<Rightarrow> lib_call" where
  "register_call a =
     DNSServiceRegister (a_flags a) (a_interfaceIndex a) (a_name a) (a_regtype a)
       (a_domain a) (a_host a) (a_port a) (a_txtRecord a) (a_callback a)"

section \<open>What the library calls leave unchanged\<close>

lemma lib_process_result_frame:
  "lib_process_result r w = (x, w1) \<Longrightarrow>
     log w1 = log w \<and> calls w1 = calls w @ [DNSServiceProcessResult r] \<and>
     descs w1 = descs w \<and> readers w1 = readers w \<and>
     next_ref w1 = next_ref w \<and> resolver_objs w1 = resolver_objs w"
  by (auto simp: lib_process_result_def next_outcome_def split: list.splits)

lemma new_session_frame:
  "new_session c w = (x, w1) \<Longrightarrow>
     log w1 = log w \<and> calls w1 = calls w @ [c] \<and> descs w1 = descs w \<and>
     readers w1 = readers w \<and> resolver_objs w1 = resolver_objs w \<and>
     (case x of Inl e \<Rightarrow> next_ref w1 = next_ref w
              | Inr s \<Rightarrow> s = next_ref w \<and> next_ref w1 = Suc (next_ref w))"
  by (auto simp: new_session_def next_outcome_def split: list.splits outcome.splits)

lemma str_int_example: "str_int (- 65537) = ''-65537''"
  by (simp add: str_int_def str_nat.simps)

section \<open>The descriptor on a readiness notification\<close>

text \<open>
  Claim C8. On a readiness notification \<^verbatim>\<open>doRead\<close> calls
  \<^verbatim>\<open>DNSServiceProcessResult\<close> on the session of the descriptor exactly once, and makes no
  other call on a session: the calls it adds to those made before are that one call.
\<close>

theorem doRead_one_process_result:
  "calls (snd (doRead d w)) = calls w @ [DNSServiceProcessResult (d_sdRef (descs w ! d))]"
proof -
  obtain x w1 where p: "lib_process_result (d_sdRef (descs w ! d)) w = (x, w1)"
    by (cases "lib_process_result (d_sdRef (descs w ! d)) w")
  have "snd (doRead d w) = w1"
    using p by (cases x) (simp_all add: doRead_def)
  with lib_process_result_frame [OF p] show ?thesis
    by simp
qed

text \<open>
  Claim C2, as amended. \<^verbatim>\<open>doRead\<close> handles no error. Whatever the process call does,
  \<^verbatim>\<open>doRead\<close> writes nothing to the log and leaves the session open (the process call is
  the only call it makes, the descriptor keeps its handle, the reactor keeps its readers).
  When the call raises, the exception leaves \<^verbatim>\<open>doRead\<close> unchanged, to the event loop
  that called it; a status that the call returns is dropped.
\<close>

theorem doRead_no_error_handling:
  assumes "lib_process_result (d_sdRef (descs w ! d)) w = (out, w1)"
  shows "doRead d w = ((case out of Raises e \<Rightarrow> Inl e | Returns ret \<Rightarrow> Inr ()), w1) \<and>
         log w1 = log w \<and> descs w1 = descs w \<and> readers w1 = readers w \<and>
         new_calls w w1 = [DNSServiceProcessResult (d_sdRef (descs w ! d))]"
proof -
  have "doRead d w = ((case out of Raises e \<Rightarrow> Inl e | Returns ret \<Rightarrow> Inr ()), w1)"
    using assms by (cases out) (simp_all add: doRead_def)
  with lib_process_result_frame [OF assms] show ?thesis
    by (simp add: new_calls_def)
qed

theorem doRead_no_error_handling_witness:
  "lib_process_result (d_sdRef (descs (example_world [Raises (BonjourError (- 65537))]) ! 0))
     (example_world [Raises (BonjourError (- 65537))]) =
     (Raises (BonjourError (- 65537)),
      (example_world [])\<lparr>calls := calls (example_world []) @
         [DNSServiceProcessResult (Some 0)]\<rparr>) \<and>
   doRead 0 (example_world [Raises (BonjourError (- 65537))]) =
     (Inl (BonjourError (- 65537)),
      (example_world [])\<lparr>calls := calls (example_world []) @
         [DNSServiceProcessResult (Some 0)]\<rparr>)"
proof -
  have h: "lib_process_result
     (d_sdRef (descs (example_world [Raises (BonjourError (- 65537))]) ! 0))
     (example_world [Raises (BonjourError (- 65537))]) =
     (Raises (BonjourError (- 65537)),
      (example_world [])\<lparr>calls := calls (example_world []) @
         [DNSServiceProcessResult (Some 0)]\<rparr>)"
    by (simp add: lib_process_result_def next_outcome_def example_world_def)
  from doRead_no_error_handling [OF h] h show ?thesis by simp
qed

text \<open>
  The claim as it was stated fails where the process call raises: the exception reaches
  the caller, and the log has no new line.
\<close>

theorem doRead_failure_counterexample:
  "fst (doRead 0 (example_world [Raises (BonjourError (- 65537))])) =
     Inl (BonjourError (- 65537)) \<and>
   new_log (example_world [Raises (BonjourError (- 65537))])
     (snd (doRead 0 (example_world [Raises (BonjourError (- 65537))]))) = []"
  by (simp add: doRead_def lib_process_result_def next_outcome_def example_world_def
      new_log_def)

section \<open>The advertiser\<close>

text \<open>
  Claim C4. \<^verbatim>\<open>stopAdvertising\<close> on an advertiser as \<^verbatim>\<open>__init__\<close> leaves it, before
  any \<^verbatim>\<open>startAdvertising\<close>, raises: the attribute \<^verbatim>\<open>bonjourDesc\<close> does not exist. The
  advertiser and the world are as before.
\<close>

theorem stopAdvertising_before_start:
  "stopAdvertising (BonjourAdvertiser_init name regtype port cb flags interfaceIndex domain
      host txtLen txtRecord context) w =
   (Inl (AttributeError ''BonjourAdvertiser'' ''bonjourDesc''),
    BonjourAdvertiser_init name regtype port cb flags interfaceIndex domain
      host txtLen txtRecord context, w)"
  by (simp add: stopAdvertising_def BonjourAdvertiser_init_def)

section \<open>The browse callback\<close>

text \<open>
  Claim C6. With an error code other than 0 the browse callback logs the error and
  returns: the browser is as before and the world differs by that one log line, so no
  resolver is made, no library call is made and the removal path is not taken.
\<close>

theorem browseCallback_error:
  "errorCode \<noteq> kDNSServiceErr_NoError \<Longrightarrow>
   browseCallback b sdRef flags interfaceIndex errorCode serviceName regtype replyDomain w =
     (Inr (), b, w\<lparr>log := log w @ [Err (''Bonjour error: '' @ str_int errorCode)]\<rparr>)"
  by (simp add: browseCallback_def log_err_def)

theorem browseCallback_error_witness:
  "(- 65537 :: int) \<noteq> kDNSServiceErr_NoError \<and>
   browseCallback example_browser 0 2 0 (- 65537) ''myecho'' ''_echo._tcp'' ''local.''
       (example_world []) =
     (Inr (), example_browser, (example_world [])\<lparr>log := [Err ''Bonjour error: -65537'']\<rparr>)"
proof -
  have h: "(- 65537 :: int) \<noteq> kDNSServiceErr_NoError"
    by (simp add: kDNSServiceErr_NoError_def)
  from browseCallback_error [OF h, of example_browser 0 2 0 "''myecho''" "''_echo._tcp''"
      "''local.''" "example_world []"] h
  show ?thesis by (simp add: str_int_example example_world_def)
qed

text \<open>\<^verbatim>\<open>startResolving\<close> on a resolver of the store: one library call, no log line, and
  of the resolver only \<^verbatim>\<open>sdRef\<close> and \<^verbatim>\<open>bonjourDesc\<close> can change.\<close>

lemma startResolving_effect:
  assumes "startResolving r w = (x, w1)" and "r < length (resolver_objs w)"
  shows "log w1 = log w \<and>
         calls w1 = calls w @ [DNSServiceResolve (r_flags (resolver_objs w ! r))
           (r_interfaceIndex (resolver_objs w ! r)) (r_name (resolver_objs w ! r))
           (r_regtype (resolver_objs w ! r)) (r_domain (resolver_objs w ! r))
           (r_callback (resolver_objs w ! r))] \<and>
         (\<exists>sd bd. resolver_objs w1 =
            (resolver_objs w)[r := (resolver_objs w ! r)\<lparr>r_sdRef := sd, r_bonjourDesc := bd\<rparr>])"
proof -
  let ?c = "DNSServiceResolve (r_flags (resolver_objs w ! r))
           (r_interfaceIndex (resolver_objs w ! r)) (r_name (resolver_objs w ! r))
           (r_regtype (resolver_objs w ! r)) (r_domain (resolver_objs w ! r))
           (r_callback (resolver_objs w ! r))"
  obtain y w0 where n: "new_session ?c w = (y, w0)"
    by (cases "new_session ?c w")
  note f = new_session_frame [OF n]
  show ?thesis
  proof (cases y)
    case (Inl e)
    with assms n have "w1 = w0" by (simp add: startResolving_def)
    moreover have "\<exists>sd bd. resolver_objs w = (resolver_objs w)[r := (resolver_objs w ! r)
        \<lparr>r_sdRef := sd, r_bonjourDesc := bd\<rparr>]"
      by (rule exI [of _ "r_sdRef (resolver_objs w ! r)"],
          rule exI [of _ "r_bonjourDesc (resolver_objs w ! r)"]) simp
    ultimately show ?thesis using f by simp
  next
    case (Inr s)
    with assms n f have "log w1 = log w" and "calls w1 = calls w @ [?c]"
      and "resolver_objs w1 = (resolver_objs w)[r := (resolver_objs w ! r)
             \<lparr>r_sdRef := Some s, r_bonjourDesc := Some (length (descs w))\<rparr>]"
      by (auto simp: startResolving_def Let_def set_resolver_def
          BonjourDescriptor_init_def addReader_def split: if_splits)
    then show ?thesis by blast
  qed
qed

lemma browseCallback_add_effect:
  assumes "errorCode = kDNSServiceErr_NoError" and "flags AND kDNSServiceFlagsAdd \<noteq> 0"
    and "browseCallback b sdRef flags interfaceIndex errorCode serviceName regtype
           replyDomain w = (x, b', w')"
  shows "b' = b \<and>
         (\<exists>sd bd. resolver_objs w' = resolver_objs w @
            [\<lparr>r_sdRef = sd, r_name = serviceName, r_regtype = regtype,
              r_domain = replyDomain, r_callback = b_resolveCallback b, r_flags = flags,
              r_interfaceIndex = interfaceIndex, r_bonjourDesc = bd\<rparr>]) \<and>
         calls w' = calls w @ [DNSServiceResolve flags interfaceIndex serviceName regtype
            replyDomain (b_resolveCallback b)] \<and>
         log w' = log w"
proof -
  obtain res w1 where i: "BonjourResolver_init serviceName regtype (b_resolveCallback b)
                           flags interfaceIndex replyDomain w = (res, w1)"
    by (cases "BonjourResolver_init serviceName regtype (b_resolveCallback b)
                           flags interfaceIndex replyDomain w")
  then have res: "res = length (resolver_objs w)"
    and w1: "w1 = w\<lparr>resolver_objs := resolver_objs w @
          [\<lparr>r_sdRef = None, r_name = serviceName, r_regtype = regtype,
            r_domain = replyDomain, r_callback = b_resolveCallback b, r_flags = flags,
            r_interfaceIndex = interfaceIndex, r_bonjourDesc = None\<rparr>]\<rparr>"
    by (auto simp: BonjourResolver_init_def)
  obtain y w2 where s: "startResolving res w1 = (y, w2)"
    by (cases "startResolving res w1")
  from assms i s have out: "x = y" "b' = b" "w' = w2"
    by (simp_all add: browseCallback_def)
  have lt: "res < length (resolver_objs w1)" by (simp add: res w1)
  from startResolving_effect [OF s lt] show ?thesis
    unfolding out by (auto simp: res w1)
qed

text \<open>No method of the browser assigns to \<^verbatim>\<open>resolvers\<close>.\<close>

lemma browser_step_resolvers:
  "b_resolvers (fst (browser_step x bw)) = b_resolvers (fst bw)"
proof (cases bw)
  case (Pair b w)
  show ?thesis
  proof (cases x)
    case OpStartBrowsing
    then show ?thesis using Pair
      by (auto simp: startBrowsing_def Let_def BonjourDescriptor_init_def
          split: prod.splits sum.splits)
  next
    case OpStopBrowsing
    then show ?thesis using Pair
      by (auto simp: stopBrowsing_def split: option.splits prod.splits sum.splits)
  next
    case (OpBrowseCallback sdRef flags ii errorCode sn rt rd)
    then show ?thesis using Pair
      by (auto simp: browseCallback_def serviceRemovedCallback_def Let_def
          split: prod.splits)
  qed
qed

lemma browser_run_resolvers:
  "b_resolvers (fst (browser_run xs bw)) = b_resolvers (fst bw)"
  by (induction xs arbitrary: bw) (simp_all add: browser_step_resolvers)

text \<open>
  Claim C5. A browse callback with the add flag and error code 0 makes exactly one new
  resolver (the store of resolvers grows by one object, built from the arguments of the
  callback and the browser's resolve callback) and calls \<^verbatim>\<open>startResolving\<close> on it in
  the same callback: the one library call added is \<^verbatim>\<open>DNSServiceResolve\<close> with the
  attributes of that resolver. The browser is unchanged, so its \<^verbatim>\<open>resolvers\<close> list
  is as before; from \<^verbatim>\<open>__init__\<close> on, through any sequence of its methods and
  callbacks, the list is empty.
\<close>

theorem browseCallback_add:
  assumes "errorCode = kDNSServiceErr_NoError" and "flags AND kDNSServiceFlagsAdd \<noteq> 0"
    and "browseCallback b sdRef flags interfaceIndex errorCode serviceName regtype
           replyDomain w = (x, b', w')"
  shows "b' = b \<and> b_resolvers b' = b_resolvers b \<and>
         (\<exists>sd bd. resolver_objs w' = resolver_objs w @
            [\<lparr>r_sdRef = sd, r_name = serviceName, r_regtype = regtype,
              r_domain = replyDomain, r_callback = b_resolveCallback b, r_flags = flags,
              r_interfaceIndex = interfaceIndex, r_bonjourDesc = bd\<rparr>]) \<and>
         new_calls w w' = [DNSServiceResolve flags interfaceIndex serviceName regtype
            replyDomain (b_resolveCallback b)] \<and>
         b_resolvers (fst (browser_run ops
            (BonjourBrowser_init rt cb fl ii dmn ctx, w0))) = []"
  using browseCallback_add_effect [OF assms]
  by (simp add: new_calls_def browser_run_resolvers BonjourBrowser_init_def)

theorem browseCallback_add_witness:
  "(0::int) = kDNSServiceErr_NoError \<and> (2::int) AND kDNSServiceFlagsAdd \<noteq> 0 \<and>
   browseCallback example_browser 0 2 0 0 ''myecho'' ''_echo._tcp'' ''local.''
       (example_world []) =
     (Inr (), example_browser,
      (example_world [])
        \<lparr>calls := calls (example_world []) @
           [DNSServiceResolve 2 0 ''myecho'' ''_echo._tcp'' ''local.''
              (UserCallback ''resolveCallback'')],
         next_ref := 2,
         descs := [\<lparr>d_sdRef = Some 0\<rparr>, \<lparr>d_sdRef = Some 1\<rparr>],
         resolver_objs :=
           [\<lparr>r_sdRef = Some 1, r_name = ''myecho'', r_regtype = ''_echo._tcp'',
             r_domain = ''local.'', r_callback = UserCallback ''resolveCallback'',
             r_flags = 2, r_interfaceIndex = 0, r_bonjourDesc = Some 1\<rparr>],
         readers := [0, 1]\<rparr>) \<and>
   b_resolvers example_browser = []"
proof -
  have h1: "(0::int) = kDNSServiceErr_NoError"
    by (simp add: kDNSServiceErr_NoError_def)
  have h2: "(2::int) AND kDNSServiceFlagsAdd \<noteq> 0"
    by (simp add: kDNSServiceFlagsAdd_def)
  have h3: "browseCallback example_browser 0 2 0 0 ''myecho'' ''_echo._tcp'' ''local.''
       (example_world []) =
     (Inr (), example_browser,
      (example_world [])
        \<lparr>calls := calls (example_world []) @
           [DNSServiceResolve 2 0 ''myecho'' ''_echo._tcp'' ''local.''
              (UserCallback ''resolveCallback'')],
         next_ref := 2,
         descs := [\<lparr>d_sdRef = Some 0\<rparr>, \<lparr>d_sdRef = Some 1\<rparr>],
         resolver_objs :=
           [\<lparr>r_sdRef = Some 1, r_name = ''myecho'', r_regtype = ''_echo._tcp'',
             r_domain = ''local.'', r_callback = UserCallback ''resolveCallback'',
             r_flags = 2, r_interfaceIndex = 0, r_bonjourDesc = Some 1\<rparr>],
         readers := [0, 1]\<rparr>)"
    by (simp add: browseCallback_def kDNSServiceErr_NoError_def kDNSServiceFlagsAdd_def
        BonjourResolver_init_def startResolving_def new_session_def next_outcome_def
        set_resolver_def BonjourDescriptor_init_def addReader_def example_world_def
        example_browser_def BonjourBrowser_init_def Let_def)
  from browseCallback_add [OF h1 h2 h3] h1 h2 h3 show ?thesis
    by (simp add: example_browser_def BonjourBrowser_init_def)
qed

text \<open>
  Claim C1, as amended. The removal path \<^verbatim>\<open>serviceRemovedCallback\<close> is taken if and
  only if the error code is 0 and the add flag is absent from the flags; with an error
  code other than 0 it is never taken.
\<close>

theorem removal_iff:
  "removal_fired w (snd (snd (browseCallback b sdRef flags interfaceIndex errorCode
       serviceName regtype replyDomain w))) \<longleftrightarrow>
     errorCode = kDNSServiceErr_NoError \<and> flags AND kDNSServiceFlagsAdd = 0"
proof (cases "errorCode = kDNSServiceErr_NoError")
  case False
  then show ?thesis
    by (simp add: browseCallback_def log_err_def removal_fired_def new_log_def)
next
  case True
  show ?thesis
  proof (cases "flags AND kDNSServiceFlagsAdd = 0")
    case z: True
    with True show ?thesis
      by (simp add: browseCallback_def serviceRemovedCallback_def log_msg_def
          removal_fired_def new_log_def)
  next
    case nz: False
    obtain x b' w' where r: "browseCallback b sdRef flags interfaceIndex errorCode
       serviceName regtype replyDomain w = (x, b', w')"
      by (cases "browseCallback b sdRef flags interfaceIndex errorCode
       serviceName regtype replyDomain w")
    from browseCallback_add_effect [OF True nz r] have "log w' = log w" by simp
    with r nz True show ?thesis
      by (simp add: removal_fired_def new_log_def)
  qed
qed

theorem removal_iff_witness:
  "removal_fired (example_world []) (snd (snd (browseCallback example_browser 0 0 0 0
       ''myecho'' ''_echo._tcp'' ''local.'' (example_world [])))) \<and>
   (0::int) = kDNSServiceErr_NoError \<and> (0::int) AND kDNSServiceFlagsAdd = 0"
  using removal_iff [of "example_world []" example_browser 0 0 0 0 "''myecho''"
      "''_echo._tcp''" "''local.''"]
  by (simp add: kDNSServiceErr_NoError_def)

text \<open>
  The claim as it was stated fails for an error code other than 0: the add flag is absent,
  and the removal path is not taken.
\<close>

theorem removal_with_error_counterexample:
  "\<not> (removal_fired (example_world []) (snd (snd (browseCallback example_browser 0 0 0
         (- 65537) ''myecho'' ''_echo._tcp'' ''local.'' (example_world [])))) \<longleftrightarrow>
      (0::int) AND kDNSServiceFlagsAdd = 0)"
  by (simp add: browseCallback_def kDNSServiceErr_NoError_def log_err_def
      removal_fired_def new_log_def example_world_def)

section \<open>Teardown\<close>










section \<open>A descriptor after \<^verbatim>\<open>connectionLost\<close>\<close>






section \<open>Starting an advertiser twice\<close>

lemma startAdvertising_success:
  assumes "startAdvertising a w = (Inr (), a1, w1)"
  shows "a1 = a\<lparr>a_sdRef := Some (next_ref w), a_bonjourDesc := Some (length (descs w))\<rparr> \<and>
         calls w1 = calls w @ [register_call a] \<and>
         next_ref w1 = Suc (next_ref w) \<and>
         descs w1 = descs w @ [\<lparr>d_sdRef = Some (next_ref w)\<rparr>] \<and>
         set (readers w1) = insert (length (descs w)) (set (readers w)) \<and>
         log w1 = log w"
proof -
  obtain y w0 where n: "new_session (register_call a) w = (y, w0)"
    by (cases "new_session (register_call a) w")
  note f = new_session_frame [OF n]
  show ?thesis
  proof (cases y)
    case (Inl e)
    with assms n show ?thesis
      by (simp add: startAdvertising_def register_call_def)
  next
    case (Inr s)
    with assms n f show ?thesis
      by (auto simp: startAdvertising_def register_call_def Let_def
          BonjourDescriptor_init_def addReader_def split: if_splits)
  qed
qed

text \<open>
  Claim C7. When \<^verbatim>\<open>startAdvertising\<close> returns twice in a row, with no
  \<^verbatim>\<open>stopAdvertising\<close> between, the advertiser ends with the second session in
  \<^verbatim>\<open>sdRef\<close> and the second descriptor in \<^verbatim>\<open>bonjourDesc\<close>, all other attributes as
  at the start. The two calls make two registrations and no \<^verbatim>\<open>close\<close>; the first
  descriptor is still among the readers of the reactor and still holds the first session.
\<close>

theorem startAdvertising_twice:
  assumes "startAdvertising a w = (Inr (), a1, w1)"
    and "startAdvertising a1 w1 = (Inr (), a2, w2)"
  shows "a_sdRef a1 = Some (next_ref w) \<and> a_bonjourDesc a1 = Some (length (descs w)) \<and>
         a2 = a\<lparr>a_sdRef := Some (Suc (next_ref w)),
                a_bonjourDesc := Some (Suc (length (descs w)))\<rparr> \<and>
         new_calls w w2 = [register_call a, register_call a] \<and>
         (\<forall>s. SdRefClose s \<notin> set (new_calls w w2)) \<and>
         length (descs w) \<in> set (readers w2) \<and>
         Suc (length (descs w)) \<in> set (readers w2) \<and>
         d_sdRef (descs w2 ! length (descs w)) = Some (next_ref w) \<and>
         d_sdRef (descs w2 ! Suc (length (descs w))) = Some (Suc (next_ref w))"
proof -
  note s1 = startAdvertising_success [OF assms(1)]
  note s2 = startAdvertising_success [OF assms(2)]
  from s1 have r: "register_call a1 = register_call a"
    by (simp add: register_call_def)
  from s1 s2 r have c: "new_calls w w2 = [register_call a, register_call a]"
    by (simp add: new_calls_def)
  have "\<forall>s. SdRefClose s \<notin> set (new_calls w w2)"
    unfolding c by (simp add: register_call_def)
  moreover from s1 s2 have "a2 = a\<lparr>a_sdRef := Some (Suc (next_ref w)),
                a_bonjourDesc := Some (Suc (length (descs w)))\<rparr>"
    by simp
  moreover from s1 s2 have "d_sdRef (descs w2 ! length (descs w)) = Some (next_ref w)"
    by (simp add: nth_append)
  moreover from s1 s2
  have "d_sdRef (descs w2 ! Suc (length (descs w))) = Some (Suc (next_ref w))"
    by (simp add: nth_append)
  ultimately show ?thesis using s1 s2 c by simp
qed

theorem startAdvertising_twice_witness:
  "startAdvertising example_advertiser initial_world =
     (Inr (), started_advertiser, started_world) \<and>
   startAdvertising started_advertiser started_world =
     (Inr (), example_advertiser\<lparr>a_sdRef := Some 1, a_bonjourDesc := Some 1\<rparr>,
      initial_world\<lparr>calls := [example_register, example_register], next_ref := 2,
        descs := [\<lparr>d_sdRef = Some 0\<rparr>, \<lparr>d_sdRef = Some 1\<rparr>], readers := [0, 1]\<rparr>) \<and>
   new_calls initial_world
      (initial_world\<lparr>calls := [example_register, example_register], next_ref := 2,
        descs := [\<lparr>d_sdRef = Some 0\<rparr>, \<lparr>d_sdRef = Some 1\<rparr>], readers := [0, 1]\<rparr>) =
     [example_register, example_register]"
proof -
  have h1: "startAdvertising example_advertiser initial_world =
     (Inr (), started_advertiser, started_world)"
    by (simp add: startAdvertising_def new_session_def next_outcome_def
        BonjourDescriptor_init_def addReader_def example_advertiser_def
        BonjourAdvertiser_default_def BonjourAdvertiser_init_def initial_world_def
        example_register_def started_advertiser_def started_world_def Let_def)
  have h2: "startAdvertising started_advertiser started_world =
     (Inr (), example_advertiser\<lparr>a_sdRef := Some 1, a_bonjourDesc := Some 1\<rparr>,
      initial_world\<lparr>calls := [example_register, example_register], next_ref := 2,
        descs := [\<lparr>d_sdRef = Some 0\<rparr>, \<lparr>d_sdRef = Some 1\<rparr>], readers := [0, 1]\<rparr>)"
    by (simp add: startAdvertising_def new_session_def next_outcome_def
        BonjourDescriptor_init_def addReader_def example_advertiser_def
        BonjourAdvertiser_default_def BonjourAdvertiser_init_def initial_world_def
        example_register_def started_advertiser_def started_world_def Let_def)
  from startAdvertising_twice [OF h1 h2] h1 h2 show ?thesis
    by (simp add: register_call_def example_advertiser_def example_register_def
        BonjourAdvertiser_default_def BonjourAdvertiser_init_def)
qed

section \<open>Constructing the factory\<close>

text \<open>
  Claim C10. Constructing a \<^verbatim>\<open>PBServerFactoryBonjour\<close> never stores the root on the
  instance. When the construction returns, the instance has exactly the attributes
  \<^verbatim>\<open>serviceName\<close>, \<^verbatim>\<open>serviceType\<close> and \<^verbatim>\<open>servicePort\<close>; the root and the flag are
  on another object, the one that the constructor call made and that nothing refers to.
\<close>

theorem factory_init_drops_root:
  "case PBServerFactoryBonjour_new IPBRoot root serviceName serviceType servicePort
          unsafeTracebacks h of
     (x, h') \<Rightarrow>
       (h' ! length h) ''root'' = None \<and>
       (case x of
          Inl e \<Rightarrow> IPBRoot root = Inl e \<and> h' ! length h = Map.empty
        | Inr self \<Rightarrow>
            self = length h \<and>
            h' ! self = [''serviceName'' \<mapsto> serviceName, ''serviceType'' \<mapsto> serviceType,
                         ''servicePort'' \<mapsto> servicePort] \<and>
            dom (h' ! self) = {''serviceName'', ''serviceType'', ''servicePort''} \<and>
            (\<exists>r. IPBRoot root = Inr r \<and>
                 h' ! Suc self =
                   [''root'' \<mapsto> r, ''unsafeTracebacks'' \<mapsto> VBool unsafeTracebacks]))"
proof (cases "IPBRoot root")
  case (Inl e)
  then show ?thesis
    by (simp add: PBServerFactoryBonjour_new_def PBServerFactoryBonjour_init_def
        PBServerFactory_new_def Let_def nth_append)
next
  case (Inr r)
  have "dom [''serviceName'' \<mapsto> serviceName, ''serviceType'' \<mapsto> serviceType,
             ''servicePort'' \<mapsto> servicePort] =
        {''serviceName'', ''serviceType'', ''servicePort''}"
    by auto
  with Inr show ?thesis
    by (simp add: PBServerFactoryBonjour_new_def PBServerFactoryBonjour_init_def
        PBServerFactory_new_def Let_def nth_append)
qed

theorem factory_init_drops_root_witness:
  "PBServerFactoryBonjour_new Inr (VRef 0) (VStr ''myecho'') (VStr ''_echo._tcp'') (VInt 8000)
      False [Map.empty] =
     (Inr 1,
      [Map.empty,
       [''serviceName'' \<mapsto> VStr ''myecho'', ''serviceType'' \<mapsto> VStr ''_echo._tcp'',
        ''servicePort'' \<mapsto> VInt 8000],
       [''root'' \<mapsto> VRef 0, ''unsafeTracebacks'' \<mapsto> VBool False]]) \<and>
   ([Map.empty,
       [''serviceName'' \<mapsto> VStr ''myecho'', ''serviceType'' \<mapsto> VStr ''_echo._tcp'',
        ''servicePort'' \<mapsto> VInt 8000],
       [''root'' \<mapsto> VRef 0, ''unsafeTracebacks'' \<mapsto> VBool False]] ! 1) ''root'' = None"
proof -
  have h: "PBServerFactoryBonjour_new Inr (VRef 0) (VStr ''myecho'') (VStr ''_echo._tcp'')
      (VInt 8000) False [Map.empty] =
     (Inr 1,
      [Map.empty,
       [''serviceName'' \<mapsto> VStr ''myecho'', ''serviceType'' \<mapsto> VStr ''_echo._tcp'',
        ''servicePort'' \<mapsto> VInt 8000],
       [''root'' \<mapsto> VRef 0, ''unsafeTracebacks'' \<mapsto> VBool False]])"
    by (simp add: PBServerFactoryBonjour_new_def PBServerFactoryBonjour_init_def
        PBServerFactory_new_def Let_def)
  from factory_init_drops_root [where IPBRoot = Inr and root = "VRef 0"
      and serviceName = "VStr ''myecho''" and serviceType = "VStr ''_echo._tcp''"
      and servicePort = "VInt 8000" and unsafeTracebacks = False and h = "[Map.empty]"] h
  show ?thesis by simp
qed

end
